theory Spec2Isabelle
  imports Main "HOL-Library.Word"
begin

section \<open>Byte buffers and 32-bit accesses\<close>

text \<open>
  The driver moves audio between two kinds of byte buffers: the 512-byte URB buffers
  (\<^verbatim>\<open>pcm_urb.buffer\<close>) and the ALSA ring buffer (\<^verbatim>\<open>dma_area\<close>). A buffer is a list of
  bytes; a C pointer into it is the buffer together with a byte offset. The transcoder
  casts its \<^verbatim>\<open>u8 *\<close> arguments to \<^verbatim>\<open>u32 *\<close> and moves whole 32-bit words, so the
  assignment \<^verbatim>\<open>((u32 *)dest)[i] = ((u32 *)src)[k]\<close> copies the four bytes at byte
  offset \<open>4 * k\<close> of \<open>src\<close> to byte offset \<open>4 * i\<close> of \<open>dest\<close>. An access outside the
  buffer is undefined behaviour in C; the model returns \<open>None\<close> there.
\<close>

type_synonym u8 = "8 word"

definition PCM_N_URBS :: nat where
  "PCM_N_URBS = 4"

definition PCM_URB_SIZE :: nat where
  "PCM_URB_SIZE = 512"

definition PCM_PACKET_SIZE :: nat where
  "PCM_PACKET_SIZE = 4 * 4"

definition copy_u32 :: "u8 list \<Rightarrow> nat \<Rightarrow> u8 list \<Rightarrow> nat \<Rightarrow> u8 list option" where
  "copy_u32 dest dp src sp =
     (if dp + 4 \<le> length dest \<and> sp + 4 \<le> length src
      then Some (dest[dp := src ! sp, dp + 1 := src ! (sp + 1),
                      dp + 2 := src ! (sp + 2), dp + 3 := src ! (sp + 3)])
      else None)"

definition zero_u32 :: "u8 list \<Rightarrow> nat \<Rightarrow> u8 list option" where
  "zero_u32 dest dp =
     (if dp + 4 \<le> length dest
      then Some (dest[dp := 0, dp + 1 := 0, dp + 2 := 0, dp + 3 := 0])
      else None)"

section \<open>The transcoder\<close>

text \<open>
  \<^verbatim>\<open>memcpy_pcm_playback(dest, src, ch)\<close>. The inner loop \<^verbatim>\<open>for (c = 0; c < ch; c++)\<close>
  advances the outer index \<open>i\<close> and the source index \<open>o\<close> (here \<open>k\<close>) with every word
  it copies; it returns both with the destination buffer. The outer loop then applies
  its own \<^verbatim>\<open>i++\<close> to the index the inner loop left.
\<close>

function playback_inner ::
  "nat \<Rightarrow> nat \<Rightarrow> nat \<Rightarrow> nat \<Rightarrow> u8 list \<Rightarrow> nat \<Rightarrow> u8 list \<Rightarrow> nat \<Rightarrow> (nat \<times> nat \<times> u8 list) option"
where
  "playback_inner ch c i k dest doff src soff =
     (if c < ch then
        (case copy_u32 dest (doff + 4 * i) src (soff + 4 * k) of
           None \<Rightarrow> None
         | Some dest' \<Rightarrow> playback_inner ch (c + 1) (i + 1) (k + 1) dest' doff src soff)
      else Some (i, k, dest))"
  by pat_completeness auto
termination
  by (relation "measure (\<lambda>(ch, c, i, k, dest, doff, src, soff). ch - c)") auto

declare playback_inner.simps [simp del]

lemma playback_inner_index:
  "playback_inner ch c i k dest doff src soff = Some (i', k', dest') \<Longrightarrow>
   i' = i + (ch - c) \<and> k' = k + (ch - c) \<and> length dest' = length dest"
proof (induction ch c i k dest doff src soff rule: playback_inner.induct)
  case (1 ch c i k dest doff src soff)
  show ?case
  proof (cases "c < ch")
    case False
    with "1.prems" show ?thesis
      by (simp add: playback_inner.simps [of ch c])
  next
    case True
    from True "1.prems" obtain d where
      d: "copy_u32 dest (doff + 4 * i) src (soff + 4 * k) = Some d"
      and r: "playback_inner ch (c + 1) (i + 1) (k + 1) d doff src soff = Some (i', k', dest')"
      by (simp add: playback_inner.simps [of ch c] split: option.splits)
    from d have "length d = length dest"
      by (auto simp: copy_u32_def split: if_splits)
    with "1.IH" [OF True d r] True show ?thesis
      by auto
  qed
qed

function playback_loop ::
  "nat \<Rightarrow> nat \<Rightarrow> nat \<Rightarrow> u8 list \<Rightarrow> nat \<Rightarrow> u8 list \<Rightarrow> nat \<Rightarrow> u8 list option"
where
  "playback_loop ch i k dest doff src soff =
     (if i < PCM_URB_SIZE div 4 then
        (if i mod 32 \<noteq> 0 then
           (case zero_u32 dest (doff + 4 * i) of
              None \<Rightarrow> None
            | Some dest' \<Rightarrow> playback_loop ch (i + 1) k dest' doff src soff)
         else
           (case playback_inner ch 0 i k dest doff src soff of
              None \<Rightarrow> None
            | Some (i', k', dest') \<Rightarrow> playback_loop ch (i' + 1) k' dest' doff src soff))
      else Some dest)"
  by pat_completeness auto
termination
proof (relation "measure (\<lambda>(ch, i, k, dest, doff, src, soff). PCM_URB_SIZE div 4 - i)")
  show "wf (measure (\<lambda>(ch, i, k, dest, doff, src, soff). PCM_URB_SIZE div 4 - i))"
    by simp
next
  fix ch i k :: nat and dest :: "u8 list" and doff :: nat and src :: "u8 list"
    and soff :: nat and x2 :: "u8 list"
  assume "i < PCM_URB_SIZE div 4"
  then show "((ch, i + 1, k, x2, doff, src, soff), (ch, i, k, dest, doff, src, soff))
      \<in> measure (\<lambda>(ch, i, k, dest, doff, src, soff). PCM_URB_SIZE div 4 - i)"
    by simp
next
  fix ch i k :: nat and dest :: "u8 list" and doff :: nat and src :: "u8 list"
    and soff :: nat and x2 :: "nat \<times> nat \<times> u8 list" and x y :: nat
    and xa :: "nat \<times> u8 list" and ya :: "u8 list" and xb :: nat
  assume "i < PCM_URB_SIZE div 4"
    and "playback_inner ch 0 i k dest doff src soff = Some x2"
    and "(x, xa) = x2" and "(xb, ya) = xa"
  then have "playback_inner ch 0 i k dest doff src soff = Some (x, xb, ya)"
    by simp
  from playback_inner_index [OF this] \<open>i < PCM_URB_SIZE div 4\<close>
  show "((ch, x + 1, xb, ya, doff, src, soff), (ch, i, k, dest, doff, src, soff))
      \<in> measure (\<lambda>(ch, i, k, dest, doff, src, soff). PCM_URB_SIZE div 4 - i)"
    by simp
qed

declare playback_loop.simps [simp del]

definition memcpy_pcm_playback :: "u8 list \<Rightarrow> nat \<Rightarrow> u8 list \<Rightarrow> nat \<Rightarrow> nat \<Rightarrow> u8 list option" where
  "memcpy_pcm_playback dest doff src soff ch = playback_loop ch 0 0 dest doff src soff"

text \<open>
  \<^verbatim>\<open>memcpy_pcm_capture(dest, src, ch, skip, l)\<close>. The inner loop has three exits per
  round: the word is skipped (\<^verbatim>\<open>skip && i < skip/4\<close>: only \<open>i\<close> advances), the whole
  function returns (\<^verbatim>\<open>l && o >= l/4\<close>), or the word is copied. The flag in the result
  of \<open>capture_inner\<close> says that the \<^verbatim>\<open>return\<close> was taken.
\<close>

function capture_inner ::
  "nat \<Rightarrow> nat \<Rightarrow> nat \<Rightarrow> nat \<Rightarrow> u8 list \<Rightarrow> nat \<Rightarrow> u8 list \<Rightarrow> nat \<Rightarrow> nat \<Rightarrow> nat \<Rightarrow>
   (bool \<times> nat \<times> nat \<times> u8 list) option"
where
  "capture_inner ch c i k dest doff src soff skip l =
     (if c < ch then
        (if skip \<noteq> 0 \<and> i < skip div 4 then
           capture_inner ch (c + 1) (i + 1) k dest doff src soff skip l
         else if l \<noteq> 0 \<and> l div 4 \<le> k then Some (True, i, k, dest)
         else
           (case copy_u32 dest (doff + 4 * k) src (soff + 4 * i) of
              None \<Rightarrow> None
            | Some dest' \<Rightarrow>
                capture_inner ch (c + 1) (i + 1) (k + 1) dest' doff src soff skip l))
      else Some (False, i, k, dest))"
  by pat_completeness auto
termination
  by (relation "measure (\<lambda>(ch, c, i, k, dest, doff, src, soff, skip, l). ch - c)") auto

declare capture_inner.simps [simp del]

lemma capture_inner_index:
  "capture_inner ch c i k dest doff src soff skip l = Some (r, i', k', dest') \<Longrightarrow>
   i \<le> i' \<and> i' \<le> i + (ch - c) \<and> k \<le> k' \<and> k' \<le> k + (ch - c) \<and>
   length dest' = length dest"
proof (induction ch c i k dest doff src soff skip l rule: capture_inner.induct)
  case (1 ch c i k dest doff src soff skip l)
  note unfold = capture_inner.simps [of ch c i k dest doff src soff skip l]
  show ?case
  proof (cases "c < ch")
    case False
    with "1.prems" show ?thesis
      by (simp add: unfold)
  next
    case True
    show ?thesis
    proof (cases "skip \<noteq> 0 \<and> i < skip div 4")
      case skipped: True
      with True "1.prems"
      have "capture_inner ch (c + 1) (i + 1) k dest doff src soff skip l = Some (r, i', k', dest')"
        by (simp add: unfold)
      from "1.IH" (1) [OF True skipped this] True show ?thesis
        by auto
    next
      case not_skipped: False
      show ?thesis
      proof (cases "l \<noteq> 0 \<and> l div 4 \<le> k")
        case True
        with \<open>c < ch\<close> not_skipped "1.prems" show ?thesis
          by (auto simp add: unfold)
      next
        case not_returned: False
        from \<open>c < ch\<close> not_skipped not_returned "1.prems" obtain d where
          d: "copy_u32 dest (doff + 4 * k) src (soff + 4 * i) = Some d"
          and r: "capture_inner ch (c + 1) (i + 1) (k + 1) d doff src soff skip l
                    = Some (r, i', k', dest')"
          by (auto simp add: unfold split: option.splits)
        from d have "length d = length dest"
          by (auto simp: copy_u32_def split: if_splits)
        with "1.IH" (2) [OF \<open>c < ch\<close> not_skipped not_returned d r] \<open>c < ch\<close>
        show ?thesis
          by auto
      qed
    qed
  qed
qed

function capture_loop ::
  "nat \<Rightarrow> nat \<Rightarrow> nat \<Rightarrow> u8 list \<Rightarrow> nat \<Rightarrow> u8 list \<Rightarrow> nat \<Rightarrow> nat \<Rightarrow> nat \<Rightarrow> u8 list option"
where
  "capture_loop ch i k dest doff src soff skip l =
     (if i < PCM_URB_SIZE div 4 then
        (if i mod 32 \<noteq> 0 then capture_loop ch (i + 1) k dest doff src soff skip l
         else
           (case capture_inner ch 0 i k dest doff src soff skip l of
              None \<Rightarrow> None
            | Some (returned, i', k', dest') \<Rightarrow>
                if returned then Some dest'
                else capture_loop ch (i' + 1) k' dest' doff src soff skip l))
      else Some dest)"
  by pat_completeness auto
termination
proof (relation "measure (\<lambda>(ch, i, k, dest, doff, src, soff, skip, l). PCM_URB_SIZE div 4 - i)",
    goal_cases)
  case 1
  show ?case by simp
next
  case (2 ch i k dest doff src soff skip l)
  then show ?case by simp
next
  case (3 ch i k dest doff src soff skip l x2 x y xa ya xb yb)
  then have "capture_inner ch 0 i k dest doff src soff skip l = Some (x, xa, xb, yb)"
    by simp
  from capture_inner_index [OF this] have "i \<le> xa"
    by simp
  with 3 show ?case
    by (simp add: PCM_URB_SIZE_def)
qed

declare capture_loop.simps [simp del]

definition memcpy_pcm_capture ::
  "u8 list \<Rightarrow> nat \<Rightarrow> u8 list \<Rightarrow> nat \<Rightarrow> nat \<Rightarrow> nat \<Rightarrow> nat \<Rightarrow> u8 list option" where
  "memcpy_pcm_capture dest doff src soff ch skip l = capture_loop ch 0 0 dest doff src soff skip l"

section \<open>Kernel interfaces the driver is written against\<close>

text \<open>
  Error numbers, stream directions and trigger commands are the values of the Linux
  headers the driver includes (\<^verbatim>\<open>errno.h\<close>, \<^verbatim>\<open>sound/pcm.h\<close>, \<^verbatim>\<open>sound/asound.h\<close>).
  \<^verbatim>\<open>SNDRV_PCM_POS_XRUN\<close> is \<^verbatim>\<open>(snd_pcm_uframes_t)-1\<close>, the largest \<^verbatim>\<open>unsigned long\<close>
  (64 bits here).
\<close>

definition ENOENT :: int where "ENOENT = 2"
definition EIO :: int where "EIO = 5"
definition ENODEV :: int where "ENODEV = 19"
definition EINVAL :: int where "EINVAL = 22"
definition EPIPE :: int where "EPIPE = 32"
definition ECONNRESET :: int where "ECONNRESET = 104"
definition ESHUTDOWN :: int where "ESHUTDOWN = 108"

definition SNDRV_PCM_STREAM_PLAYBACK :: int where "SNDRV_PCM_STREAM_PLAYBACK = 0"
definition SNDRV_PCM_STREAM_CAPTURE :: int where "SNDRV_PCM_STREAM_CAPTURE = 1"

definition SNDRV_PCM_TRIGGER_STOP :: int where "SNDRV_PCM_TRIGGER_STOP = 0"
definition SNDRV_PCM_TRIGGER_START :: int where "SNDRV_PCM_TRIGGER_START = 1"
definition SNDRV_PCM_TRIGGER_PAUSE_PUSH :: int where "SNDRV_PCM_TRIGGER_PAUSE_PUSH = 3"
definition SNDRV_PCM_TRIGGER_PAUSE_RELEASE :: int where "SNDRV_PCM_TRIGGER_PAUSE_RELEASE = 4"

definition SNDRV_PCM_POS_XRUN :: nat where
  "SNDRV_PCM_POS_XRUN = 2 ^ 64 - 1"

record snd_pcm_hardware =
  channels_min :: nat
  channels_max :: nat
  buffer_bytes_max :: nat
  period_bytes_min :: nat
  period_bytes_max :: nat
  periods_min :: nat
  periods_max :: nat

definition pcm_hw :: snd_pcm_hardware where
  "pcm_hw = \<lparr>channels_min = 2, channels_max = 4, buffer_bytes_max = 1024 * 1024,
     period_bytes_min = PCM_PACKET_SIZE * 2, period_bytes_max = 512 * 1024,
     periods_min = 2, periods_max = 1024\<rparr>"

definition pcm_hw_rec :: snd_pcm_hardware where
  "pcm_hw_rec = \<lparr>channels_min = 1, channels_max = 12, buffer_bytes_max = 1024 * 1024,
     period_bytes_min = PCM_PACKET_SIZE * 12, period_bytes_max = 512 * 1024,
     periods_min = 2, periods_max = 1024\<rparr>"

text \<open>
  The part of ALSA's \<^verbatim>\<open>struct snd_pcm_runtime\<close> and \<^verbatim>\<open>struct snd_pcm_substream\<close> that
  the driver reads or writes. \<open>buffer_size\<close> and \<open>period_size\<close> are the fields of those
  names (ALSA counts them in frames); \<open>frame_bits\<close> is the size of one frame.
\<close>

record snd_pcm_runtime =
  hw :: snd_pcm_hardware
  channels :: nat
  frame_bits :: nat
  buffer_size :: nat
  period_size :: nat
  dma_area :: "u8 list"

record snd_pcm_substream =
  stream :: int
  runtime :: snd_pcm_runtime

definition snd_pcm_lib_buffer_bytes :: "snd_pcm_substream \<Rightarrow> nat" where
  "snd_pcm_lib_buffer_bytes alsa_sub =
     buffer_size (runtime alsa_sub) * frame_bits (runtime alsa_sub) div 8"

definition bytes_to_frames :: "snd_pcm_runtime \<Rightarrow> nat \<Rightarrow> nat option" where
  "bytes_to_frames alsa_rt n =
     (if frame_bits alsa_rt = 0 then None else Some (n * 8 div frame_bits alsa_rt))"

section \<open>The driver's data\<close>

text \<open>
  \<^verbatim>\<open>struct pcm_urb\<close>: the buffer, and whether the URB is with the USB core (submitted
  and not yet given back or killed), which in C is the state of \<^verbatim>\<open>instance\<close> and of the
  anchor \<^verbatim>\<open>submitted\<close>. \<^verbatim>\<open>struct pcm_substream\<close>: the field \<^verbatim>\<open>instance\<close> is \<open>sub_instance\<close>
  here, \<open>None\<close> for \<^verbatim>\<open>NULL\<close>. \<^verbatim>\<open>struct pcm_runtime\<close>: the fields the functions below
  use; \<open>calls\<close> is not a field of the C struct but the list of kernel calls made so far,
  kept to state what a function did or did not do.
\<close>

record pcm_urb =
  buffer :: "u8 list"
  in_flight :: bool

record pcm_substream =
  sub_instance :: "snd_pcm_substream option"
  active :: bool
  dma_off :: nat
  period_off :: nat

datatype stream_state = STREAM_DISABLED | STREAM_STARTING | STREAM_RUNNING | STREAM_STOPPING

datatype urb_dir = URB_OUT | URB_IN

datatype pcm_dir = PLAYBACK | CAPTURE

datatype kcall =
    Usb_set_interface nat nat
  | Usb_submit_urb urb_dir nat
  | Usb_wait_anchor_empty_timeout urb_dir nat
  | Usb_kill_anchored_urbs urb_dir nat
  | Usb_kill_urb urb_dir nat
  | Spin_lock pcm_dir
  | Spin_unlock pcm_dir
  | Snd_pcm_period_elapsed pcm_dir
  | Wake_up

record pcm_runtime =
  playback :: pcm_substream
  capture :: pcm_substream
  panic :: bool
  out_urbs :: "pcm_urb list"
  in_urbs :: "pcm_urb list"
  stream_state :: stream_state
  stream_wait_cond :: bool
  calls :: "kcall list"

definition get_sub :: "pcm_dir \<Rightarrow> pcm_runtime \<Rightarrow> pcm_substream" where
  "get_sub d rt = (case d of PLAYBACK \<Rightarrow> playback rt | CAPTURE \<Rightarrow> capture rt)"

definition put_sub :: "pcm_dir \<Rightarrow> pcm_substream \<Rightarrow> pcm_runtime \<Rightarrow> pcm_runtime" where
  "put_sub d sub rt =
     (case d of PLAYBACK \<Rightarrow> rt\<lparr>playback := sub\<rparr> | CAPTURE \<Rightarrow> rt\<lparr>capture := sub\<rparr>)"

definition get_urbs :: "urb_dir \<Rightarrow> pcm_runtime \<Rightarrow> pcm_urb list" where
  "get_urbs d rt = (case d of URB_OUT \<Rightarrow> out_urbs rt | URB_IN \<Rightarrow> in_urbs rt)"

definition put_urbs :: "urb_dir \<Rightarrow> pcm_urb list \<Rightarrow> pcm_runtime \<Rightarrow> pcm_runtime" where
  "put_urbs d us rt =
     (case d of URB_OUT \<Rightarrow> rt\<lparr>out_urbs := us\<rparr> | URB_IN \<Rightarrow> rt\<lparr>in_urbs := us\<rparr>)"

definition set_in_flight :: "urb_dir \<Rightarrow> nat \<Rightarrow> bool \<Rightarrow> pcm_runtime \<Rightarrow> pcm_runtime" where
  "set_in_flight d n b rt =
     put_urbs d ((get_urbs d rt)[n := (get_urbs d rt ! n)\<lparr>in_flight := b\<rparr>]) rt"

definition log_call :: "kcall \<Rightarrow> pcm_runtime \<Rightarrow> pcm_runtime" where
  "log_call c rt = rt\<lparr>calls := calls rt @ [c]\<rparr>"

text \<open>
  What the USB core hands back to the driver, which the driver does not decide: the
  return values of \<^verbatim>\<open>usb_set_interface\<close> (by interface number), of \<^verbatim>\<open>usb_submit_urb\<close>
  during a start and of \<^verbatim>\<open>usb_wait_anchor_empty_timeout\<close> (by URB), and the
  completions that arrive while the starter sleeps in \<^verbatim>\<open>wait_event_timeout\<close>, in
  their order. A completion names the URB, its status and the return value of the
  resubmission the handler will attempt; an in-direction completion also brings the
  512 bytes the device sent.
\<close>

datatype completion =
    Out_complete nat int int
  | In_complete nat "u8 list" int int

record usb_env =
  set_interface_ret :: "nat \<Rightarrow> int"
  submit_ret :: "urb_dir \<Rightarrow> nat \<Rightarrow> int"
  anchor_wait_ret :: "urb_dir \<Rightarrow> nat \<Rightarrow> int"
  wait_completions :: "completion list"

text \<open>
  \<^verbatim>\<open>usb_submit_urb\<close> as the driver sees it: the call is recorded, and the URB is in
  flight when the core accepted it (return value 0).
\<close>

definition usb_submit_urb :: "urb_dir \<Rightarrow> nat \<Rightarrow> int \<Rightarrow> pcm_runtime \<Rightarrow> pcm_runtime" where
  "usb_submit_urb d n ret rt =
     (let rt1 = log_call (Usb_submit_urb d n) rt
      in if ret = 0 then set_in_flight d n True rt1 else rt1)"

definition zoom_pcm_get_substream :: "snd_pcm_substream \<Rightarrow> pcm_dir option" where
  "zoom_pcm_get_substream alsa_sub =
     (if stream alsa_sub = SNDRV_PCM_STREAM_PLAYBACK then Some PLAYBACK
      else if stream alsa_sub = SNDRV_PCM_STREAM_CAPTURE then Some CAPTURE
      else None)"

section \<open>Moving one packet and advancing the position\<close>

text \<open>
  Both \<^verbatim>\<open>zoom_pcm_capture\<close> and \<^verbatim>\<open>zoom_pcm_playback\<close> end with the same statements
  (pcm.c lines 314 to 323 and 354 to 363): \<^verbatim>\<open>dma_off\<close> is advanced by \<^verbatim>\<open>pcm_len\<close> and
  reduced by the buffer size once if it reached it; \<^verbatim>\<open>period_off\<close> is advanced and, if
  it reached \<^verbatim>\<open>period_size\<close>, reduced modulo it, and the function returns true. The
  remainder by a zero \<^verbatim>\<open>period_size\<close> is a division by zero (\<open>None\<close>). Sizes and offsets
  are natural numbers: with the buffer and channel limits of \<open>pcm_hw\<close> and \<open>pcm_hw_rec\<close>
  none of the C additions wraps, and the one subtraction is made under its guard.
\<close>

definition pcm_advance ::
  "nat \<Rightarrow> nat \<Rightarrow> nat \<Rightarrow> pcm_substream \<Rightarrow> (bool \<times> pcm_substream) option" where
  "pcm_advance pcm_len pcm_buffer_size period_sz sub =
     (let d = dma_off sub + pcm_len;
          sub1 = sub\<lparr>dma_off := (if pcm_buffer_size \<le> d then d - pcm_buffer_size else d)\<rparr>;
          p = period_off sub1 + pcm_len
      in if period_sz \<le> p then
           (if period_sz = 0 then None
            else Some (True, sub1\<lparr>period_off := p mod period_sz\<rparr>))
         else Some (False, sub1\<lparr>period_off := p\<rparr>))"

definition set_dma_area :: "u8 list \<Rightarrow> pcm_substream \<Rightarrow> pcm_substream" where
  "set_dma_area area sub =
     sub\<lparr>sub_instance := map_option (\<lambda>a. a\<lparr>runtime := (runtime a)\<lparr>dma_area := area\<rparr>\<rparr>)
                                      (sub_instance sub)\<rparr>"

text \<open>
  \<^verbatim>\<open>zoom_pcm_capture(sub, urb)\<close>: \<^verbatim>\<open>sub->instance\<close> is dereferenced (\<open>None\<close> when it is
  \<^verbatim>\<open>NULL\<close>); the channel count is passed to the transcoder as a \<^verbatim>\<open>u8\<close>. The result is
  the return value and the substream, whose ring buffer holds what was copied.
\<close>

definition zoom_pcm_capture :: "pcm_substream \<Rightarrow> pcm_urb \<Rightarrow> (bool \<times> pcm_substream) option" where
  "zoom_pcm_capture sub urb =
     (case sub_instance sub of
        None \<Rightarrow> None
      | Some alsa_sub \<Rightarrow>
          (let alsa_rt = runtime alsa_sub;
               pcm_buffer_size = snd_pcm_lib_buffer_bytes alsa_sub;
               pcm_len = 4 * channels alsa_rt * 4;
               ch = channels alsa_rt mod 256
           in case
                (if dma_off sub + pcm_len \<le> pcm_buffer_size then
                   memcpy_pcm_capture (dma_area alsa_rt) (dma_off sub) (buffer urb) 0 ch 0 0
                 else
                   (let len = pcm_buffer_size - dma_off sub
                    in case memcpy_pcm_capture (dma_area alsa_rt) (dma_off sub)
                              (buffer urb) 0 ch 0 len of
                         None \<Rightarrow> None
                       | Some area1 \<Rightarrow> memcpy_pcm_capture area1 0 (buffer urb) 0 ch len 0))
              of
                None \<Rightarrow> None
              | Some area' \<Rightarrow>
                  pcm_advance pcm_len pcm_buffer_size (period_size alsa_rt)
                    (set_dma_area area' sub)))"

text \<open>
  \<^verbatim>\<open>zoom_pcm_playback(sub, urb)\<close>: the branch taken at the end of the ring buffer only
  writes a log line; the URB buffer keeps its content there.
\<close>

definition zoom_pcm_playback ::
  "pcm_substream \<Rightarrow> pcm_urb \<Rightarrow> (bool \<times> pcm_substream \<times> pcm_urb) option" where
  "zoom_pcm_playback sub urb =
     (case sub_instance sub of
        None \<Rightarrow> None
      | Some alsa_sub \<Rightarrow>
          (let alsa_rt = runtime alsa_sub;
               pcm_buffer_size = snd_pcm_lib_buffer_bytes alsa_sub;
               pcm_len = 4 * channels alsa_rt * 4;
               ch = channels alsa_rt mod 256
           in case
                (if dma_off sub + pcm_len \<le> pcm_buffer_size then
                   memcpy_pcm_playback (buffer urb) 0 (dma_area alsa_rt) (dma_off sub) ch
                 else Some (buffer urb))
              of
                None \<Rightarrow> None
              | Some buffer' \<Rightarrow>
                  (case pcm_advance pcm_len pcm_buffer_size (period_size alsa_rt) sub of
                     None \<Rightarrow> None
                   | Some (elapsed, sub') \<Rightarrow> Some (elapsed, sub', urb\<lparr>buffer := buffer'\<rparr>))))"

section \<open>The completion handlers\<close>

text \<open>
  A handler is given the runtime, the index of its URB in \<^verbatim>\<open>in_urbs\<close> or \<^verbatim>\<open>out_urbs\<close>,
  the URB's status and the value the resubmission will return. An index outside the
  array is no URB of this runtime (\<open>None\<close>, where the handler first uses the URB).
\<close>

definition urb_status_fatal :: "int \<Rightarrow> bool" where
  "urb_status_fatal status =
     (status = - ENOENT \<or> status = - ENODEV \<or> status = - ECONNRESET \<or> status = - ESHUTDOWN)"

definition zoom_pcm_in_urb_handler :: "pcm_runtime \<Rightarrow> nat \<Rightarrow> int \<Rightarrow> int \<Rightarrow> pcm_runtime option" where
  "zoom_pcm_in_urb_handler rt n status ret =
     (if panic rt \<or> stream_state rt = STREAM_STOPPING then Some rt
      else if urb_status_fatal status then Some (rt\<lparr>panic := True\<rparr>)
      else if length (in_urbs rt) \<le> n then None
      else
        (let rt1 = log_call (Spin_lock CAPTURE) rt
         in case (if active (capture rt1) then zoom_pcm_capture (capture rt1) (in_urbs rt1 ! n)
                  else Some (False, capture rt1)) of
              None \<Rightarrow> None
            | Some (do_period_elapsed, sub) \<Rightarrow>
                (let rt2 = log_call (Spin_unlock CAPTURE) (rt1\<lparr>capture := sub\<rparr>);
                     rt3 = (if do_period_elapsed
                            then log_call (Snd_pcm_period_elapsed CAPTURE) rt2 else rt2);
                     rt4 = usb_submit_urb URB_IN n ret rt3
                 in Some (if ret < 0 then rt4\<lparr>panic := True\<rparr> else rt4))))"

definition zoom_pcm_out_urb_handler :: "pcm_runtime \<Rightarrow> nat \<Rightarrow> int \<Rightarrow> int \<Rightarrow> pcm_runtime option" where
  "zoom_pcm_out_urb_handler rt n status ret =
     (if panic rt \<or> stream_state rt = STREAM_STOPPING then Some rt
      else if urb_status_fatal status then Some (rt\<lparr>panic := True\<rparr>)
      else if length (out_urbs rt) \<le> n then None
      else
        (let rt0 = (if stream_state rt = STREAM_STARTING
                    then log_call Wake_up (rt\<lparr>stream_wait_cond := True\<rparr>) else rt);
             rt1 = log_call (Spin_lock PLAYBACK) rt0
         in case (if active (playback rt1) then zoom_pcm_playback (playback rt1) (out_urbs rt1 ! n)
                  else Some (False, playback rt1,
                             (out_urbs rt1 ! n)\<lparr>buffer := replicate PCM_URB_SIZE 0\<rparr>)) of
              None \<Rightarrow> None
            | Some (do_period_elapsed, sub, urb) \<Rightarrow>
                (let rt2 = log_call (Spin_unlock PLAYBACK)
                             (rt1\<lparr>playback := sub, out_urbs := (out_urbs rt1)[n := urb]\<rparr>);
                     rt3 = (if do_period_elapsed
                            then log_call (Snd_pcm_period_elapsed PLAYBACK) rt2 else rt2);
                     rt4 = usb_submit_urb URB_OUT n ret rt3
                 in Some (if ret < 0 then rt4\<lparr>panic := True\<rparr> else rt4))))"

text \<open>
  The USB core gives a URB back (it is no longer in flight; an in-direction URB holds
  the received bytes) and calls its completion handler.
\<close>

fun deliver :: "completion \<Rightarrow> pcm_runtime \<Rightarrow> pcm_runtime option" where
  "deliver (Out_complete n status ret) rt =
     zoom_pcm_out_urb_handler (set_in_flight URB_OUT n False rt) n status ret"
| "deliver (In_complete n payload status ret) rt =
     zoom_pcm_in_urb_handler
       ((set_in_flight URB_IN n False rt)
          \<lparr>in_urbs := (in_urbs (set_in_flight URB_IN n False rt))
             [n := (in_urbs (set_in_flight URB_IN n False rt) ! n)\<lparr>buffer := payload\<rparr>]\<rparr>)
       n status ret"

text \<open>
  \<^verbatim>\<open>wait_event_timeout(queue, cond, HZ)\<close>: returns at once when the condition already
  holds; otherwise the completions of the environment are handled one by one until the
  condition holds or none is left, which is the timeout.
\<close>

fun wait_event_timeout :: "completion list \<Rightarrow> pcm_runtime \<Rightarrow> pcm_runtime option" where
  "wait_event_timeout [] rt = Some rt"
| "wait_event_timeout (e # es) rt =
     (if stream_wait_cond rt then Some rt
      else case deliver e rt of
             None \<Rightarrow> None
           | Some rt' \<Rightarrow> wait_event_timeout es rt')"

section \<open>The stream state machine\<close>

text \<open>
  \<^verbatim>\<open>zoom_pcm_stream_stop(rt)\<close>. One round of either loop waits for the anchor of URB \<open>i\<close>
  to empty, kills the anchored URBs when the wait timed out (\<^verbatim>\<open>!time\<close>), and kills the
  URB; after \<^verbatim>\<open>usb_kill_urb\<close> the URB is not in flight. Completions that arrive
  meanwhile find the state \<^verbatim>\<open>STREAM_STOPPING\<close>, where the handlers return at once.
\<close>

definition stop_urb :: "usb_env \<Rightarrow> urb_dir \<Rightarrow> nat \<Rightarrow> pcm_runtime \<Rightarrow> pcm_runtime" where
  "stop_urb env d i rt =
     (let time = anchor_wait_ret env d i;
          rt1 = log_call (Usb_wait_anchor_empty_timeout d i) rt;
          rt2 = (if time = 0 then log_call (Usb_kill_anchored_urbs d i) rt1 else rt1);
          rt3 = log_call (Usb_kill_urb d i) rt2
      in set_in_flight d i False rt3)"

function stop_urbs :: "usb_env \<Rightarrow> urb_dir \<Rightarrow> nat \<Rightarrow> pcm_runtime \<Rightarrow> pcm_runtime" where
  "stop_urbs env d i rt =
     (if i < PCM_N_URBS then stop_urbs env d (i + 1) (stop_urb env d i rt) else rt)"
  by pat_completeness auto
termination
  by (relation "measure (\<lambda>(env, d, i, rt). PCM_N_URBS - i)") auto

declare stop_urbs.simps [simp del]

definition zoom_pcm_stream_stop :: "usb_env \<Rightarrow> pcm_runtime \<Rightarrow> pcm_runtime" where
  "zoom_pcm_stream_stop env rt =
     (if stream_state rt \<noteq> STREAM_DISABLED then
        (let rt1 = rt\<lparr>stream_state := STREAM_STOPPING\<rparr>;
             rt2 = stop_urbs env URB_OUT 0 rt1;
             rt3 = stop_urbs env URB_IN 0 rt2
         in rt3\<lparr>stream_state := STREAM_DISABLED\<rparr>)
      else rt)"

definition zoom_interface_init :: "usb_env \<Rightarrow> pcm_runtime \<Rightarrow> int \<times> pcm_runtime" where
  "zoom_interface_init env rt =
     (let ret = set_interface_ret env 1;
          rt1 = log_call (Usb_set_interface 1 3) rt
      in if ret \<noteq> 0 then (- EIO, zoom_pcm_stream_stop env rt1)
         else
           (let ret = set_interface_ret env 2;
                rt2 = log_call (Usb_set_interface 2 3) rt1
            in if ret \<noteq> 0 then (- EIO, zoom_pcm_stream_stop env rt2)
               else (0, rt2)))"

text \<open>
  The submission loop of \<^verbatim>\<open>zoom_pcm_stream_start\<close>: round \<open>i\<close> clears the buffer of
  out-URB \<open>i\<close>, submits it, and submits in-URB \<open>i\<close>; a failed submission stops the
  stream and returns the error. The loop ends with \<^verbatim>\<open>ret\<close> equal to 0.
\<close>

definition clear_out_buffer :: "nat \<Rightarrow> pcm_runtime \<Rightarrow> pcm_runtime" where
  "clear_out_buffer i rt =
     rt\<lparr>out_urbs := (out_urbs rt)[i := (out_urbs rt ! i)\<lparr>buffer := replicate PCM_URB_SIZE 0\<rparr>]\<rparr>"

function submit_urbs :: "usb_env \<Rightarrow> nat \<Rightarrow> pcm_runtime \<Rightarrow> int \<times> pcm_runtime" where
  "submit_urbs env i rt =
     (if i < PCM_N_URBS then
        (let ret = submit_ret env URB_OUT i;
             rt1 = usb_submit_urb URB_OUT i ret (clear_out_buffer i rt)
         in if ret \<noteq> 0 then (ret, zoom_pcm_stream_stop env rt1)
            else
              (let ret = submit_ret env URB_IN i;
                   rt2 = usb_submit_urb URB_IN i ret rt1
               in if ret \<noteq> 0 then (ret, zoom_pcm_stream_stop env rt2)
                  else submit_urbs env (i + 1) rt2))
      else (0, rt))"
  by pat_completeness auto
termination
  by (relation "measure (\<lambda>(env, i, rt). PCM_N_URBS - i)") auto

declare submit_urbs.simps [simp del]

definition zoom_pcm_stream_start :: "usb_env \<Rightarrow> pcm_runtime \<Rightarrow> (int \<times> pcm_runtime) option" where
  "zoom_pcm_stream_start env rt =
     (if stream_state rt = STREAM_DISABLED then
        (case zoom_interface_init env (rt\<lparr>panic := False\<rparr>) of
           (ret, rt1) \<Rightarrow>
             if ret \<noteq> 0 then Some (ret, rt1)
             else
               (case submit_urbs env 0 (rt1\<lparr>stream_state := STREAM_STARTING\<rparr>) of
                  (ret, rt2) \<Rightarrow>
                    if ret \<noteq> 0 then Some (ret, rt2)
                    else
                      (case wait_event_timeout (wait_completions env) rt2 of
                         None \<Rightarrow> None
                       | Some rt3 \<Rightarrow>
                           if stream_wait_cond rt3
                           then Some (ret, rt3\<lparr>stream_state := STREAM_RUNNING\<rparr>)
                           else Some (- EIO, zoom_pcm_stream_stop env rt3))))
      else Some (0, rt))"

section \<open>The PCM operations\<close>

definition zoom_pcm_open :: "snd_pcm_substream \<Rightarrow> pcm_runtime \<Rightarrow> int \<times> pcm_runtime" where
  "zoom_pcm_open alsa_sub rt =
     (if panic rt then (- EPIPE, rt)
      else if stream alsa_sub = SNDRV_PCM_STREAM_PLAYBACK then
        (0, rt\<lparr>playback := (playback rt)
               \<lparr>sub_instance := Some (alsa_sub\<lparr>runtime := (runtime alsa_sub)\<lparr>hw := pcm_hw\<rparr>\<rparr>),
                active := False\<rparr>\<rparr>)
      else if stream alsa_sub = SNDRV_PCM_STREAM_CAPTURE then
        (0, rt\<lparr>capture := (capture rt)
               \<lparr>sub_instance := Some (alsa_sub\<lparr>runtime := (runtime alsa_sub)\<lparr>hw := pcm_hw_rec\<rparr>\<rparr>),
                active := False\<rparr>\<rparr>)
      else (- EINVAL, rt))"

definition zoom_pcm_close :: "usb_env \<Rightarrow> snd_pcm_substream \<Rightarrow> pcm_runtime \<Rightarrow> int \<times> pcm_runtime" where
  "zoom_pcm_close env alsa_sub rt =
     (if panic rt then (0, rt)
      else case zoom_pcm_get_substream alsa_sub of
             None \<Rightarrow> (0, rt)
           | Some d \<Rightarrow>
               (let rt1 = log_call (Spin_lock d) (zoom_pcm_stream_stop env rt);
                    rt2 = put_sub d ((get_sub d rt1)\<lparr>sub_instance := None, active := False\<rparr>) rt1
                in (0, log_call (Spin_unlock d) rt2)))"

definition zoom_pcm_prepare ::
  "usb_env \<Rightarrow> snd_pcm_substream \<Rightarrow> pcm_runtime \<Rightarrow> (int \<times> pcm_runtime) option" where
  "zoom_pcm_prepare env alsa_sub rt =
     (if panic rt then Some (- EPIPE, rt)
      else case zoom_pcm_get_substream alsa_sub of
             None \<Rightarrow> Some (- ENODEV, rt)
           | Some d \<Rightarrow>
               (let rt1 = zoom_pcm_stream_stop env rt;
                    rt2 = put_sub d ((get_sub d rt1)\<lparr>dma_off := 0, period_off := 0\<rparr>) rt1
                in if stream_state rt2 = STREAM_DISABLED then
                     (case zoom_pcm_stream_start env rt2 of
                        None \<Rightarrow> None
                      | Some (ret, rt3) \<Rightarrow> if ret \<noteq> 0 then Some (ret, rt3) else Some (0, rt3))
                   else Some (0, rt2)))"

definition zoom_pcm_trigger :: "snd_pcm_substream \<Rightarrow> int \<Rightarrow> pcm_runtime \<Rightarrow> int \<times> pcm_runtime" where
  "zoom_pcm_trigger alsa_sub cmd rt =
     (if panic rt then (- EPIPE, rt)
      else case zoom_pcm_get_substream alsa_sub of
             None \<Rightarrow> (- ENODEV, rt)
           | Some d \<Rightarrow>
               if cmd = SNDRV_PCM_TRIGGER_START \<or> cmd = SNDRV_PCM_TRIGGER_PAUSE_RELEASE then
                 (0, log_call (Spin_unlock d)
                       (put_sub d ((get_sub d rt)\<lparr>active := True\<rparr>) (log_call (Spin_lock d) rt)))
               else if cmd = SNDRV_PCM_TRIGGER_STOP \<or> cmd = SNDRV_PCM_TRIGGER_PAUSE_PUSH then
                 (0, log_call (Spin_unlock d)
                       (put_sub d ((get_sub d rt)\<lparr>active := False\<rparr>) (log_call (Spin_lock d) rt)))
               else (- EINVAL, rt))"

definition zoom_pcm_pointer :: "snd_pcm_substream \<Rightarrow> pcm_runtime \<Rightarrow> (nat \<times> pcm_runtime) option" where
  "zoom_pcm_pointer alsa_sub rt =
     (if panic rt then Some (SNDRV_PCM_POS_XRUN, rt)
      else case zoom_pcm_get_substream alsa_sub of
             None \<Rightarrow> Some (SNDRV_PCM_POS_XRUN, rt)
           | Some d \<Rightarrow>
               (let rt1 = log_call (Spin_lock d) rt;
                    dma_offset = dma_off (get_sub d rt1);
                    rt2 = log_call (Spin_unlock d) rt1
                in case bytes_to_frames (runtime alsa_sub) dma_offset of
                     None \<Rightarrow> None
                   | Some frames \<Rightarrow> Some (frames, rt2)))"

definition zoom_pcm_abort :: "usb_env \<Rightarrow> pcm_runtime \<Rightarrow> pcm_runtime" where
  "zoom_pcm_abort env rt = zoom_pcm_stream_stop env (rt\<lparr>panic := True\<rparr>)"

text \<open>
  The runtime as \<^verbatim>\<open>zoom_pcm_init\<close> leaves it: the struct comes from \<^verbatim>\<open>kzalloc\<close> (every
  field zero), the state is \<^verbatim>\<open>STREAM_DISABLED\<close>, both interfaces were set, and each URB
  has a zeroed buffer of \<^verbatim>\<open>PCM_URB_SIZE\<close> bytes.
\<close>

definition new_substream :: pcm_substream where
  "new_substream = \<lparr>sub_instance = None, active = False, dma_off = 0, period_off = 0\<rparr>"

definition new_urb :: pcm_urb where
  "new_urb = \<lparr>buffer = replicate PCM_URB_SIZE 0, in_flight = False\<rparr>"

definition zoom_pcm_init :: pcm_runtime where
  "zoom_pcm_init =
     \<lparr>playback = new_substream, capture = new_substream, panic = False,
      out_urbs = replicate PCM_N_URBS new_urb, in_urbs = replicate PCM_N_URBS new_urb,
      stream_state = STREAM_DISABLED, stream_wait_cond = False,
      calls = [Usb_set_interface 1 3, Usb_set_interface 2 3]\<rparr>"

section \<open>Sequences of driver entries\<close>

text \<open>
  The driver is entered through the five PCM operations, through the completion
  handlers and through \<^verbatim>\<open>zoom_pcm_abort\<close>. A step is one entry run to its end; it gives
  the value the entry returned (0 for the \<^verbatim>\<open>void\<close> functions) and the runtime it left.
  \<open>run\<close> makes the steps of a list in order and collects the returned values.
\<close>

datatype pcm_op =
    Open snd_pcm_substream
  | Close usb_env snd_pcm_substream
  | Prepare usb_env snd_pcm_substream
  | Trigger snd_pcm_substream int
  | Pointer snd_pcm_substream
  | Complete completion
  | Abort usb_env

fun step :: "pcm_op \<Rightarrow> pcm_runtime \<Rightarrow> (int \<times> pcm_runtime) option" where
  "step (Open alsa_sub) rt = Some (zoom_pcm_open alsa_sub rt)"
| "step (Close env alsa_sub) rt = Some (zoom_pcm_close env alsa_sub rt)"
| "step (Prepare env alsa_sub) rt = zoom_pcm_prepare env alsa_sub rt"
| "step (Trigger alsa_sub cmd) rt = Some (zoom_pcm_trigger alsa_sub cmd rt)"
| "step (Pointer alsa_sub) rt =
     (case zoom_pcm_pointer alsa_sub rt of
        None \<Rightarrow> None
      | Some (frames, rt') \<Rightarrow> Some (int frames, rt'))"
| "step (Complete c) rt =
     (case deliver c rt of None \<Rightarrow> None | Some rt' \<Rightarrow> Some (0, rt'))"
| "step (Abort env) rt = Some (0, zoom_pcm_abort env rt)"

fun run :: "pcm_op list \<Rightarrow> pcm_runtime \<Rightarrow> (int list \<times> pcm_runtime) option" where
  "run [] rt = Some ([], rt)"
| "run (x # xs) rt =
     (case step x rt of
        None \<Rightarrow> None
      | Some (r, rt') \<Rightarrow>
          (case run xs rt' of
             None \<Rightarrow> None
           | Some (rs, rt'') \<Rightarrow> Some (r # rs, rt'')))"

definition submissions :: "pcm_runtime \<Rightarrow> kcall list" where
  "submissions rt = filter (\<lambda>c. case c of Usb_submit_urb d n \<Rightarrow> True | _ \<Rightarrow> False) (calls rt)"

definition cancellations :: "pcm_runtime \<Rightarrow> kcall list" where
  "cancellations rt =
     filter (\<lambda>c. case c of
                    Usb_wait_anchor_empty_timeout d n \<Rightarrow> True
                  | Usb_kill_anchored_urbs d n \<Rightarrow> True
                  | Usb_kill_urb d n \<Rightarrow> True
                  | _ \<Rightarrow> False) (calls rt)"

definition urbs_in_flight :: "pcm_runtime \<Rightarrow> nat" where
  "urbs_in_flight rt = length (filter in_flight (out_urbs rt @ in_urbs rt))"

section \<open>Example inputs\<close>

text \<open>
  A two-channel ALSA substream of direction \<open>s\<close> with a ring buffer of 128 frames
  (1024 bytes) and the given \<^verbatim>\<open>period_size\<close>; a USB core that accepts every call while no
  completion arrives; the same with the first out-URB completing during the wait.
\<close>

definition stereo_substream :: "int \<Rightarrow> nat \<Rightarrow> u8 list \<Rightarrow> snd_pcm_substream" where
  "stereo_substream s per area =
     \<lparr>stream = s,
      runtime = \<lparr>hw = pcm_hw, channels = 2, frame_bits = 64, buffer_size = 128,
                 period_size = per, dma_area = area\<rparr>\<rparr>"

definition silent_ring :: "u8 list" where
  "silent_ring = replicate 1024 0"

definition usb_silent :: usb_env where
  "usb_silent = \<lparr>set_interface_ret = (\<lambda>_. 0), submit_ret = (\<lambda>_ _. 0),
     anchor_wait_ret = (\<lambda>_ _. 0), wait_completions = []\<rparr>"

definition usb_first_out :: usb_env where
  "usb_first_out = usb_silent\<lparr>wait_completions := [Out_complete 0 0 0]\<rparr>"

definition playback_substream :: snd_pcm_substream where
  "playback_substream = stereo_substream SNDRV_PCM_STREAM_PLAYBACK 256 silent_ring"

definition capture_substream :: snd_pcm_substream where
  "capture_substream = stereo_substream SNDRV_PCM_STREAM_CAPTURE 256 silent_ring"

definition running_runtime :: pcm_runtime where
  "running_runtime = zoom_pcm_init\<lparr>stream_state := STREAM_RUNNING\<rparr>"

section \<open>Stopping the stream\<close>

lemma stop_urbs_fields:
  "stream_state (stop_urbs env d i rt) = stream_state rt \<and>
   panic (stop_urbs env d i rt) = panic rt \<and>
   stream_wait_cond (stop_urbs env d i rt) = stream_wait_cond rt \<and>
   playback (stop_urbs env d i rt) = playback rt \<and>
   capture (stop_urbs env d i rt) = capture rt \<and>
   submissions (stop_urbs env d i rt) = submissions rt"
proof (induction env d i rt rule: stop_urbs.induct)
  case (1 env d i rt)
  show ?case
  proof (cases "i < PCM_N_URBS")
    case True
    have "stop_urbs env d i rt = stop_urbs env d (i + 1) (stop_urb env d i rt)"
      using True by (simp add: stop_urbs.simps [of env d i rt])
    moreover have "stream_state (stop_urb env d i rt) = stream_state rt \<and>
        panic (stop_urb env d i rt) = panic rt \<and>
        stream_wait_cond (stop_urb env d i rt) = stream_wait_cond rt \<and>
        playback (stop_urb env d i rt) = playback rt \<and>
        capture (stop_urb env d i rt) = capture rt \<and>
        submissions (stop_urb env d i rt) = submissions rt"
      by (cases d)
        (simp_all add: stop_urb_def set_in_flight_def put_urbs_def get_urbs_def log_call_def
          submissions_def Let_def)
    ultimately show ?thesis
      using "1.IH" [OF True] by simp
  next
    case False
    then show ?thesis
      by (simp add: stop_urbs.simps [of env d i rt])
  qed
qed

text \<open>
  C9. Stop is idempotent. Called in state \<^verbatim>\<open>STREAM_DISABLED\<close>, \<^verbatim>\<open>zoom_pcm_stream_stop\<close>
  leaves the runtime as it is: no field changes and no kernel call is made, so nothing
  is waited for or killed. From any state it ends in \<^verbatim>\<open>STREAM_DISABLED\<close>, so a second
  stop right after a first changes nothing. The function is \<^verbatim>\<open>void\<close>: there is no
  error to return.
\<close>

theorem stream_stop_idempotent:
  "(stream_state rt = STREAM_DISABLED \<longrightarrow>
      zoom_pcm_stream_stop env rt = rt \<and>
      cancellations (zoom_pcm_stream_stop env rt) = cancellations rt) \<and>
   stream_state (zoom_pcm_stream_stop env rt) = STREAM_DISABLED \<and>
   zoom_pcm_stream_stop env2 (zoom_pcm_stream_stop env rt) = zoom_pcm_stream_stop env rt"
  by (simp add: zoom_pcm_stream_stop_def Let_def)

theorem stream_stop_idempotent_witness:
  "stream_state (zoom_pcm_stream_stop usb_silent running_runtime) = STREAM_DISABLED \<and>
   zoom_pcm_stream_stop usb_silent (zoom_pcm_stream_stop usb_silent running_runtime)
     = zoom_pcm_stream_stop usb_silent running_runtime \<and>
   cancellations (zoom_pcm_stream_stop usb_silent (zoom_pcm_stream_stop usb_silent running_runtime))
     = cancellations (zoom_pcm_stream_stop usb_silent running_runtime) \<and>
   stream_state running_runtime = STREAM_RUNNING"
proof -
  have disabled: "stream_state (zoom_pcm_stream_stop usb_silent running_runtime) = STREAM_DISABLED"
    using stream_stop_idempotent [of running_runtime usb_silent usb_silent] by simp
  have "stream_state running_runtime = STREAM_RUNNING"
    by (simp add: running_runtime_def)
  with disabled
    stream_stop_idempotent [of "zoom_pcm_stream_stop usb_silent running_runtime" usb_silent usb_silent]
  show ?thesis
    by simp
qed

section \<open>Trigger\<close>

text \<open>
  C10. On a recognised substream of a runtime that is not panicked,
  \<^verbatim>\<open>zoom_pcm_trigger\<close> with START or PAUSE_RELEASE returns 0 and sets the substream's
  \<open>active\<close> flag; with STOP or PAUSE_PUSH it returns 0 and clears the flag. In both cases
  the runtime is otherwise the one before (apart from the record of the lock being taken
  and released): \<open>dma_off\<close>, \<open>period_off\<close>, the stream state and the substream of the
  other direction are unchanged. Every other command returns \<open>-EINVAL\<close> and changes
  nothing.
\<close>

theorem trigger_sets_only_active:
  assumes "\<not> panic rt" and "zoom_pcm_get_substream alsa_sub = Some d"
  shows
    "(cmd = SNDRV_PCM_TRIGGER_START \<or> cmd = SNDRV_PCM_TRIGGER_PAUSE_RELEASE \<longrightarrow>
        fst (zoom_pcm_trigger alsa_sub cmd rt) = 0 \<and>
        (snd (zoom_pcm_trigger alsa_sub cmd rt))\<lparr>calls := calls rt\<rparr>
          = put_sub d ((get_sub d rt)\<lparr>active := True\<rparr>) rt) \<and>
     (cmd = SNDRV_PCM_TRIGGER_STOP \<or> cmd = SNDRV_PCM_TRIGGER_PAUSE_PUSH \<longrightarrow>
        fst (zoom_pcm_trigger alsa_sub cmd rt) = 0 \<and>
        (snd (zoom_pcm_trigger alsa_sub cmd rt))\<lparr>calls := calls rt\<rparr>
          = put_sub d ((get_sub d rt)\<lparr>active := False\<rparr>) rt) \<and>
     (cmd \<noteq> SNDRV_PCM_TRIGGER_START \<and> cmd \<noteq> SNDRV_PCM_TRIGGER_PAUSE_RELEASE \<and>
      cmd \<noteq> SNDRV_PCM_TRIGGER_STOP \<and> cmd \<noteq> SNDRV_PCM_TRIGGER_PAUSE_PUSH \<longrightarrow>
        zoom_pcm_trigger alsa_sub cmd rt = (- EINVAL, rt)) \<and>
     dma_off (get_sub d (snd (zoom_pcm_trigger alsa_sub cmd rt))) = dma_off (get_sub d rt) \<and>
     period_off (get_sub d (snd (zoom_pcm_trigger alsa_sub cmd rt))) = period_off (get_sub d rt) \<and>
     stream_state (snd (zoom_pcm_trigger alsa_sub cmd rt)) = stream_state rt \<and>
     (\<forall>d'. d' \<noteq> d \<longrightarrow> get_sub d' (snd (zoom_pcm_trigger alsa_sub cmd rt)) = get_sub d' rt)"
proof -
  have cmds: "SNDRV_PCM_TRIGGER_START \<noteq> SNDRV_PCM_TRIGGER_STOP"
    "SNDRV_PCM_TRIGGER_START \<noteq> SNDRV_PCM_TRIGGER_PAUSE_PUSH"
    "SNDRV_PCM_TRIGGER_PAUSE_RELEASE \<noteq> SNDRV_PCM_TRIGGER_STOP"
    "SNDRV_PCM_TRIGGER_PAUSE_RELEASE \<noteq> SNDRV_PCM_TRIGGER_PAUSE_PUSH"
    by (simp_all add: SNDRV_PCM_TRIGGER_START_def SNDRV_PCM_TRIGGER_STOP_def
        SNDRV_PCM_TRIGGER_PAUSE_PUSH_def SNDRV_PCM_TRIGGER_PAUSE_RELEASE_def)
  have other: "d' \<noteq> d \<Longrightarrow> get_sub d' (put_sub d sub (log_call c rt)) = get_sub d' rt"
    for d' sub c
    by (cases d; cases d') (simp_all add: get_sub_def put_sub_def log_call_def)
  from assms cmds show ?thesis
    by (cases d)
      (auto simp: zoom_pcm_trigger_def get_sub_def put_sub_def log_call_def
        split: pcm_dir.splits)
qed

theorem trigger_sets_only_active_witness:
  "\<not> panic zoom_pcm_init \<and>
   zoom_pcm_get_substream playback_substream = Some PLAYBACK \<and>
   fst (zoom_pcm_trigger playback_substream SNDRV_PCM_TRIGGER_START zoom_pcm_init) = 0 \<and>
   (snd (zoom_pcm_trigger playback_substream SNDRV_PCM_TRIGGER_START zoom_pcm_init))
      \<lparr>calls := calls zoom_pcm_init\<rparr>
     = put_sub PLAYBACK ((get_sub PLAYBACK zoom_pcm_init)\<lparr>active := True\<rparr>) zoom_pcm_init \<and>
   stream_state (snd (zoom_pcm_trigger playback_substream SNDRV_PCM_TRIGGER_START zoom_pcm_init))
     = STREAM_DISABLED"
proof -
  have p: "\<not> panic zoom_pcm_init"
    by (simp add: zoom_pcm_init_def)
  have g: "zoom_pcm_get_substream playback_substream = Some PLAYBACK"
    by (simp add: zoom_pcm_get_substream_def playback_substream_def stereo_substream_def)
  have s: "stream_state zoom_pcm_init = STREAM_DISABLED"
    by (simp add: zoom_pcm_init_def)
  from p g s trigger_sets_only_active [OF p g, of SNDRV_PCM_TRIGGER_START]
  show ?thesis
    by simp
qed

end
